theory Spec2Isabelle
  imports Main "HOL-Library.Word"
begin

section \<open>The entry of a hyper tree grid cursor (vtkHyperTreeGridEntry.h)\<close>

text \<open>
  \<^verbatim>\<open>vtkHyperTreeGridEntry\<close> caches one thing: the index of the current cell in one
  hyper tree. The header defines the constructors, \<^verbatim>\<open>Initialize(vtkIdType)\<close>,
  \<^verbatim>\<open>Copy\<close>, \<^verbatim>\<open>GetVertexId\<close> and \<^verbatim>\<open>IsRoot\<close> inline; the other members are
  only declared there.

  \<^verbatim>\<open>vtkIdType\<close> is declared in vtkType.h, which is not among the sources. It is a signed
  machine integer whose width depends on the build, so the width is a type parameter:
  a \<^verbatim>\<open>vtkIdType\<close> is a word of \<open>LENGTH('w)\<close> bits, read as two's complement by \<open>sint\<close>.
\<close>

type_synonym 'w vtkIdType = "'w word"

text \<open>
  The class has the single field \<^verbatim>\<open>Index\<close>. The functions below work on the record
  scheme, so that \<open>more\<close> stands for whatever a derived entry adds to the base class.
\<close>

record 'id vtkHyperTreeGridEntry =
  Index :: "'id"

subsection \<open>The inline members\<close>

text \<open>\<^verbatim>\<open>vtkHyperTreeGridEntry() { this->Index = 0; }\<close>\<close>

definition vtkHyperTreeGridEntry_default :: "'w::len vtkIdType vtkHyperTreeGridEntry" where
  "vtkHyperTreeGridEntry_default = \<lparr>Index = 0\<rparr>"

text \<open>\<^verbatim>\<open>vtkHyperTreeGridEntry( vtkIdType index ) { this->Index = index; }\<close>\<close>

definition vtkHyperTreeGridEntry_index ::
  "'w::len vtkIdType \<Rightarrow> 'w vtkIdType vtkHyperTreeGridEntry" where
  "vtkHyperTreeGridEntry_index index = \<lparr>Index = index\<rparr>"

text \<open>\<^verbatim>\<open>void Initialize( vtkIdType index ) { this->Index = index; }\<close>\<close>

definition Initialize_index ::
  "'w::len vtkIdType \<Rightarrow> ('w vtkIdType, 'm) vtkHyperTreeGridEntry_scheme
     \<Rightarrow> ('w vtkIdType, 'm) vtkHyperTreeGridEntry_scheme" where
  "Initialize_index index this = this\<lparr>Index := index\<rparr>"

text \<open>
  \<^verbatim>\<open>void Copy( const vtkHyperTreeGridEntry* entry) { this->Index = entry->Index; }\<close>
  The first argument is the entry pointed to, the second the object the member is
  called on; the result is that object after the call.
\<close>

definition Copy ::
  "('w::len vtkIdType, 'n) vtkHyperTreeGridEntry_scheme
     \<Rightarrow> ('w vtkIdType, 'm) vtkHyperTreeGridEntry_scheme
     \<Rightarrow> ('w vtkIdType, 'm) vtkHyperTreeGridEntry_scheme" where
  "Copy entry this = this\<lparr>Index := Index entry\<rparr>"

text \<open>\<^verbatim>\<open>vtkIdType GetVertexId() const { return this->Index; }\<close>\<close>

definition GetVertexId ::
  "('w::len vtkIdType, 'm) vtkHyperTreeGridEntry_scheme \<Rightarrow> 'w vtkIdType" where
  "GetVertexId this = Index this"

text \<open>\<^verbatim>\<open>bool IsRoot() const { return ( this->Index == 0 ); }\<close>\<close>

definition IsRoot :: "('w::len vtkIdType, 'm) vtkHyperTreeGridEntry_scheme \<Rightarrow> bool" where
  "IsRoot this = (Index this = 0)"

subsection \<open>Entries in memory\<close>

text \<open>
  \<^verbatim>\<open>Copy\<close> receives its source through a pointer, which may point to the very object the
  member is called on. To speak about both objects, entries live in a store from
  references to entries. \<open>Copy_at h this entry\<close> is the call \<^verbatim>\<open>this->Copy(entry)\<close> in
  the store \<open>h\<close>; dereferencing a reference that holds no entry has no defined result.
\<close>

type_synonym ref = nat

type_synonym ('w, 'm) entry_store = "ref \<rightharpoonup> ('w vtkIdType, 'm) vtkHyperTreeGridEntry_scheme"

definition Copy_at ::
  "('w::len, 'm) entry_store \<Rightarrow> ref \<Rightarrow> ref \<Rightarrow> ('w, 'm) entry_store option" where
  "Copy_at h this entry =
     (case h this of
        None \<Rightarrow> None
      | Some b \<Rightarrow>
          (case h entry of
             None \<Rightarrow> None
           | Some a \<Rightarrow> Some (h(this \<mapsto> Copy a b))))"

section \<open>The members defined outside the header\<close>

text \<open>
  \<^verbatim>\<open>Initialize(grid, treeIndex, create)\<close>, \<^verbatim>\<open>GetGlobalNodeIndex\<close>,
  \<^verbatim>\<open>SetGlobalIndexStart\<close>, \<^verbatim>\<open>SetGlobalIndexFromLocal\<close>, \<^verbatim>\<open>IsLeaf\<close>,
  \<^verbatim>\<open>SubdivideLeaf\<close>, \<^verbatim>\<open>IsTerminalNode\<close> and \<^verbatim>\<open>ToChild\<close> are declared in the
  header and defined elsewhere, and the classes \<^verbatim>\<open>vtkHyperTree\<close> and
  \<^verbatim>\<open>vtkHyperTreeGrid\<close> they work on are only forward-declared. What the header fixes is
  kept: the argument types (\<^verbatim>\<open>unsigned char ichild\<close>, \<^verbatim>\<open>unsigned int level\<close>), which
  members take the tree as \<^verbatim>\<open>const\<close>, and the documented behaviour. The rest follows
  the specification, definition by definition.
\<close>

subsection \<open>The tree\<close>

text \<open>
  Modelled from the spec: the per-cell state kept by the tree storage (class vtkHyperTree,
  not among the sources). "A cell is a leaf or coarse, never both"; the storage holds
  "per-cell state and children pointers/offsets", so a coarse cell carries the local index
  of its first child.
\<close>

datatype 'id cell = Leaf | Coarse 'id

text \<open>
  Modelled from the spec: the tree handle (class vtkHyperTree, not among the sources).
  A tree has a "fixed branching-factor", cells in "one tree's own linear addressing
  (root = index 0, children follow tree-specific layout)", and a "mapping table" from
  local to global indices.
\<close>

record 'id vtkHyperTree =
  BranchingFactor :: nat
  Cells :: "'id cell list"
  GlobalIndexTable :: "'id \<rightharpoonup> 'id"

text \<open>
  Modelled from the spec: the lookup of a cell by local index (vtkHyperTree, not among
  the sources). A local index that is negative or beyond the allocated cells addresses no
  cell.
\<close>

definition CellAt :: "'w::len vtkIdType vtkHyperTree \<Rightarrow> 'w vtkIdType \<Rightarrow> 'w vtkIdType cell option" where
  "CellAt tree index =
     (if 0 \<le> sint index \<and> nat (sint index) < length (Cells tree)
      then Some (Cells tree ! nat (sint index))
      else None)"

text \<open>
  Modelled from the spec: \<^verbatim>\<open>IsLeafAt(localIndex)\<close> of the tree handle contract
  (vtkHyperTree, not among the sources), the "leaf/coarse test by local index".
\<close>

definition IsLeafAt :: "'w::len vtkIdType vtkHyperTree \<Rightarrow> 'w vtkIdType \<Rightarrow> bool" where
  "IsLeafAt tree index = (CellAt tree index = Some Leaf)"

text \<open>
  Modelled from the spec: the other side of the leaf/coarse test of the tree handle
  contract (vtkHyperTree, not among the sources): the cell exists and has been subdivided.
\<close>

definition IsCoarseAt :: "'w::len vtkIdType vtkHyperTree \<Rightarrow> 'w vtkIdType \<Rightarrow> bool" where
  "IsCoarseAt tree index =
     (case CellAt tree index of Some (Coarse elder) \<Rightarrow> True | _ \<Rightarrow> False)"

text \<open>
  Modelled from the spec: \<^verbatim>\<open>ChildLocalIndex(localIndex, ichild)\<close> of the tree handle
  contract (vtkHyperTree, not among the sources), the "child-local-index lookup". Only a
  coarse cell has children; they follow its first child in the linear addressing.
\<close>

definition ChildLocalIndex ::
  "'w::len vtkIdType vtkHyperTree \<Rightarrow> 'w vtkIdType \<Rightarrow> nat \<Rightarrow> 'w vtkIdType option" where
  "ChildLocalIndex tree index ichild =
     (case CellAt tree index of
        Some (Coarse elder) \<Rightarrow> Some (elder + word_of_nat ichild)
      | _ \<Rightarrow> None)"

text \<open>
  Modelled from the spec: \<^verbatim>\<open>GetGlobalIndex(localIndex)\<close> of the tree handle contract
  (vtkHyperTree, not among the sources): the global index "derived from LocalIndex via the
  owning tree's mapping table"; absent where none has been assigned.
\<close>

definition GetGlobalIndex ::
  "'w::len vtkIdType vtkHyperTree \<Rightarrow> 'w vtkIdType \<Rightarrow> 'w vtkIdType option" where
  "GetGlobalIndex tree index = GlobalIndexTable tree index"

text \<open>
  Modelled from the spec: \<^verbatim>\<open>SetGlobalIndex(localIndex, value)\<close> of the tree handle
  contract (vtkHyperTree, not among the sources), the "global-index set per local index".
\<close>

definition SetGlobalIndex ::
  "'w::len vtkIdType \<Rightarrow> 'w vtkIdType \<Rightarrow> 'w vtkIdType vtkHyperTree \<Rightarrow> 'w vtkIdType vtkHyperTree" where
  "SetGlobalIndex index val tree =
     tree\<lparr>GlobalIndexTable := (GlobalIndexTable tree)(index \<mapsto> val)\<rparr>"

text \<open>
  Modelled from the spec: the tree's own bookkeeping of global indices for freshly created
  cells (vtkHyperTree, not among the sources). The global index assigned at the root
  "seeds a per-tree contiguous-or-mapped numbering": a new cell is registered with the
  root's global index plus its own local index, and nothing is registered while the root
  has no global index. A caller may map a cell to another value afterwards.
\<close>

definition RegisterGlobalIndices ::
  "'w::len vtkIdType list \<Rightarrow> 'w vtkIdType vtkHyperTree \<Rightarrow> ('w vtkIdType \<rightharpoonup> 'w vtkIdType)" where
  "RegisterGlobalIndices children tree =
     (case GlobalIndexTable tree 0 of
        None \<Rightarrow> GlobalIndexTable tree
      | Some start \<Rightarrow>
          GlobalIndexTable tree ++ map_of (map (\<lambda>child. (child, start + child)) children))"

text \<open>
  Modelled from the spec: \<^verbatim>\<open>Subdivide(localIndex, level)\<close> of the tree handle contract
  (vtkHyperTree, not among the sources), "a subdivide operation that turns a leaf into a
  coarse cell with freshly allocated children": the children, as many as the branching
  factor, are appended to the linear addressing as leaves, the cell becomes coarse with
  the first of them as its first child, and the tree "registers the new children's global
  indices via the tree's own bookkeeping". The level "is passed through"; a cell that is
  not a leaf is left alone.
\<close>

definition Subdivide ::
  "'w::len vtkIdType \<Rightarrow> 32 word \<Rightarrow> 'w vtkIdType vtkHyperTree \<Rightarrow> 'w vtkIdType vtkHyperTree" where
  "Subdivide index level tree =
     (if IsLeafAt tree index
      then tree\<lparr>Cells :=
             (Cells tree)[nat (sint index) := Coarse (word_of_nat (length (Cells tree)))]
               @ replicate (BranchingFactor tree) Leaf,
           GlobalIndexTable :=
             RegisterGlobalIndices
               (map word_of_nat [length (Cells tree)..<length (Cells tree) + BranchingFactor tree])
               tree\<rparr>
      else tree)"

text \<open>
  Modelled from the spec: the tree a grid "creates on demand" (vtkHyperTreeGrid and
  vtkHyperTree, not among the sources): the root alone, at local index 0, a leaf, with no
  global index assigned yet.
\<close>

definition NewTree :: "nat \<Rightarrow> 'w::len vtkIdType vtkHyperTree" where
  "NewTree branching = \<lparr>BranchingFactor = branching, Cells = [Leaf], GlobalIndexTable = Map.empty\<rparr>"

subsection \<open>The grid\<close>

text \<open>
  Modelled from the spec: the grid (class vtkHyperTreeGrid, not among the sources), which
  "owns an array of tree handles (sparse, addressable by tree position), creates a tree on
  demand, and can report whether a given tree index is null". \<open>MaxNumberOfTrees\<close> bounds
  the valid tree positions and \<open>BranchFactor\<close> is the branching factor of the trees it
  creates.
\<close>

record 'id vtkHyperTreeGrid =
  MaxNumberOfTrees :: nat
  BranchFactor :: nat
  HyperTrees :: "'id \<rightharpoonup> 'id vtkHyperTree"

text \<open>
  Modelled from the spec: "the grid's valid range" of tree indices (vtkHyperTreeGrid, not
  among the sources).
\<close>

definition InRange :: "'w::len vtkIdType vtkHyperTreeGrid \<Rightarrow> 'w vtkIdType \<Rightarrow> bool" where
  "InRange grid treeIndex =
     (0 \<le> sint treeIndex \<and> nat (sint treeIndex) < MaxNumberOfTrees grid)"

text \<open>
  Modelled from the spec: \<^verbatim>\<open>GetTree(treeIndex, create) -> TreeHandle-or-absent\<close> of
  the grid contract (vtkHyperTreeGrid, not among the sources). The result is the handle,
  absent "when treeIndex is out of the grid's valid range or the addressed tree is
  unallocated and create=false", together with the grid, which has gained the tree when one
  was created.
\<close>

definition GetTree ::
  "'w::len vtkIdType \<Rightarrow> bool \<Rightarrow> 'w vtkIdType vtkHyperTreeGrid
     \<Rightarrow> 'w vtkIdType vtkHyperTree option \<times> 'w vtkIdType vtkHyperTreeGrid" where
  "GetTree treeIndex create grid =
     (if \<not> InRange grid treeIndex then (None, grid)
      else
        (case HyperTrees grid treeIndex of
           Some tree \<Rightarrow> (Some tree, grid)
         | None \<Rightarrow>
             if create
             then (Some (NewTree (BranchFactor grid)),
                   grid\<lparr>HyperTrees := (HyperTrees grid)(treeIndex \<mapsto> NewTree (BranchFactor grid))\<rparr>)
             else (None, grid)))"

subsection \<open>The members of the entry\<close>

text \<open>
  Modelled from the spec: the body of \<^verbatim>\<open>vtkHyperTreeGridEntry::Initialize(grid,
  treeIndex, create)\<close> (declared in the header, defined outside the sources): it
  "returns the resolved tree handle (or a null/absent signal if the tree does not exist
  and create is false); resets this entry's LocalIndex to the tree root (0)". The result
  is the handle, the grid after the call and the entry after the call.
\<close>

definition Initialize ::
  "'w::len vtkIdType vtkHyperTreeGrid \<Rightarrow> 'w vtkIdType \<Rightarrow> bool
     \<Rightarrow> ('w vtkIdType, 'm) vtkHyperTreeGridEntry_scheme
     \<Rightarrow> 'w vtkIdType vtkHyperTree option \<times> 'w vtkIdType vtkHyperTreeGrid
         \<times> ('w vtkIdType, 'm) vtkHyperTreeGridEntry_scheme" where
  "Initialize grid treeIndex create this =
     (case GetTree treeIndex create grid of
        (tree, grid') \<Rightarrow> (tree, grid', this\<lparr>Index := 0\<rparr>))"

text \<open>
  Modelled from the spec: the body of \<^verbatim>\<open>GetGlobalNodeIndex(tree)\<close> (declared in the
  header, defined outside the sources): it "looks up the global index for LocalIndex via
  the tree's mapping".
\<close>

definition GetGlobalNodeIndex ::
  "'w::len vtkIdType vtkHyperTree \<Rightarrow> ('w vtkIdType, 'm) vtkHyperTreeGridEntry_scheme
     \<Rightarrow> 'w vtkIdType option" where
  "GetGlobalNodeIndex tree this = GetGlobalIndex tree (Index this)"

text \<open>
  Modelled from the spec: the body of \<^verbatim>\<open>SetGlobalIndexStart(tree, index)\<close> (declared
  in the header, defined outside the sources): it "assigns the root's global index". The
  tree is passed non-\<^verbatim>\<open>const\<close>; the result is the tree after the call.
\<close>

definition SetGlobalIndexStart ::
  "'w::len vtkIdType vtkHyperTree \<Rightarrow> 'w vtkIdType
     \<Rightarrow> ('w vtkIdType, 'm) vtkHyperTreeGridEntry_scheme \<Rightarrow> 'w vtkIdType vtkHyperTree" where
  "SetGlobalIndexStart tree index this = SetGlobalIndex 0 index tree"


text \<open>
  Modelled from the spec: the body of \<^verbatim>\<open>IsLeaf(tree)\<close> (declared in the header,
  defined outside the sources): it "delegates to the tree's per-local-index leaf/coarse
  flag".
\<close>

definition IsLeaf ::
  "'w::len vtkIdType vtkHyperTree \<Rightarrow> ('w vtkIdType, 'm) vtkHyperTreeGridEntry_scheme \<Rightarrow> bool" where
  "IsLeaf tree this = IsLeafAt tree (Index this)"

text \<open>
  Modelled from the spec: the body of \<^verbatim>\<open>SubdivideLeaf(tree, level)\<close> (declared in the
  header, defined outside the sources). The header documents "if leaf then becomes coarse
  and all its children are created"; the spec has the tree do the work. The entry itself
  is not changed; the result is the tree after the call.
\<close>

definition SubdivideLeaf ::
  "'w::len vtkIdType vtkHyperTree \<Rightarrow> 32 word
     \<Rightarrow> ('w vtkIdType, 'm) vtkHyperTreeGridEntry_scheme \<Rightarrow> 'w vtkIdType vtkHyperTree" where
  "SubdivideLeaf tree level this =
     (if IsLeaf tree this then Subdivide (Index this) level tree else tree)"

text \<open>
  Modelled from the spec: the test the tree makes for one child of a cell (vtkHyperTree,
  not among the sources): the child is looked up by its number and must be a leaf.
\<close>

definition ChildIsLeaf :: "'w::len vtkIdType vtkHyperTree \<Rightarrow> 'w vtkIdType \<Rightarrow> nat \<Rightarrow> bool" where
  "ChildIsLeaf tree index ichild =
     (case ChildLocalIndex tree index ichild of
        Some child \<Rightarrow> IsLeafAt tree child
      | None \<Rightarrow> False)"

text \<open>
  Modelled from the spec: the body of \<^verbatim>\<open>IsTerminalNode(tree)\<close> (declared in the
  header, defined outside the sources): "coarse AND all children are leaves; false for a
  leaf or for a coarse cell with any non-leaf child". The children are tested one by one,
  from child 0 up to the branching factor.
\<close>

definition IsTerminalNode ::
  "'w::len vtkIdType vtkHyperTree \<Rightarrow> ('w vtkIdType, 'm) vtkHyperTreeGridEntry_scheme \<Rightarrow> bool" where
  "IsTerminalNode tree this =
     (if IsLeaf tree this then False
      else IsCoarseAt tree (Index this)
           \<and> list_all (ChildIsLeaf tree (Index this)) [0..<BranchingFactor tree])"

text \<open>
  Modelled from the spec: the failure of a checked precondition, "PreconditionViolation
  - ToChild called on a leaf, or with an out-of-range child index" (the error taxonomy of
  the spec; the code that reports it is not among the sources).
\<close>

datatype error = PreconditionViolation

text \<open>
  Modelled from the spec: the body of \<^verbatim>\<open>ToChild(tree, ichild)\<close> (declared in the
  header, defined outside the sources): "precondition not-leaf (must be coarse) and
  0 \<le> ichild < tree's branching factor; advances LocalIndex to the ichild-th child's local
  index per the tree's layout", as "a checked precondition". The header gives the same two
  preconditions and the type \<^verbatim>\<open>unsigned char\<close> of \<^verbatim>\<open>ichild\<close>.
\<close>

definition ToChild ::
  "'w::len vtkIdType vtkHyperTree \<Rightarrow> 8 word
     \<Rightarrow> ('w vtkIdType, 'm) vtkHyperTreeGridEntry_scheme
     \<Rightarrow> error + ('w vtkIdType, 'm) vtkHyperTreeGridEntry_scheme" where
  "ToChild tree ichild this =
     (if IsLeaf tree this \<or> \<not> unat ichild < BranchingFactor tree
      then Inl PreconditionViolation
      else
        (case ChildLocalIndex tree (Index this) (unat ichild) of
           None \<Rightarrow> Inl PreconditionViolation
         | Some child \<Rightarrow> Inr (this\<lparr>Index := child\<rparr>)))"

section \<open>Properties of the inline members\<close>

text \<open>
  Claim C7. \<^verbatim>\<open>IsRoot()\<close> is true exactly when the stored index is 0. The member takes
  no tree and reads no other field: it is a function of the entry alone, and an entry
  given the same \<^verbatim>\<open>Index\<close> gets the same answer whatever else it holds.
\<close>

theorem IsRoot_iff_Index_zero:
  "IsRoot this = (Index this = 0)
   \<and> IsRoot ((other :: ('w::len vtkIdType, 'n) vtkHyperTreeGridEntry_scheme)\<lparr>Index := Index this\<rparr>)
       = IsRoot this"
  by (simp add: IsRoot_def)

text \<open>
  Claim C8. \<^verbatim>\<open>Initialize(i)\<close> stores exactly \<open>i\<close>, for every value of the index type:
  afterwards \<^verbatim>\<open>GetVertexId()\<close> is \<open>i\<close>. Nothing is checked against a tree (the member
  takes none and returns none) and whatever else the entry holds stays as it was.
\<close>

theorem Initialize_index_sets_Index:
  "GetVertexId (Initialize_index i this) = i
   \<and> Index (Initialize_index i this) = i
   \<and> vtkHyperTreeGridEntry.more (Initialize_index i this) = vtkHyperTreeGridEntry.more this"
  by (simp add: Initialize_index_def GetVertexId_def)

text \<open>
  Claim C9. \<^verbatim>\<open>GetVertexId()\<close> returns the stored index. The member is \<^verbatim>\<open>const\<close>
  and its body only reads the field: it is a function from the entry to the value, with
  no entry, tree or store among its results, so the entry after the call is the entry
  before it. What it returns is whatever was stored last.
\<close>

theorem GetVertexId_returns_Index:
  "GetVertexId this = Index this \<and> GetVertexId (this\<lparr>Index := i\<rparr>) = i"
  by (simp add: GetVertexId_def)

text \<open>
  Claim C10. A default-constructed entry has index 0, so \<^verbatim>\<open>GetVertexId()\<close> is 0 and
  \<^verbatim>\<open>IsRoot()\<close> is true before any \<^verbatim>\<open>Initialize\<close>. The constructor that takes an
  index stores it unchanged, for every value of the index type, whether or not it is a
  cell of some tree; such an entry is at the root exactly when the value is 0.
\<close>

theorem constructors_store_Index:
  "Index (vtkHyperTreeGridEntry_default :: 'w::len vtkIdType vtkHyperTreeGridEntry) = 0
   \<and> GetVertexId (vtkHyperTreeGridEntry_default :: 'w vtkIdType vtkHyperTreeGridEntry) = 0
   \<and> IsRoot (vtkHyperTreeGridEntry_default :: 'w vtkIdType vtkHyperTreeGridEntry)
   \<and> Index (vtkHyperTreeGridEntry_index (i :: 'w vtkIdType)) = i
   \<and> GetVertexId (vtkHyperTreeGridEntry_index i) = i
   \<and> IsRoot (vtkHyperTreeGridEntry_index i) = (i = 0)"
  by (simp add: vtkHyperTreeGridEntry_default_def vtkHyperTreeGridEntry_index_def
      GetVertexId_def IsRoot_def)

lemma Copy_same_entry: "Copy this this = this"
  by (simp add: Copy_def)

text \<open>
  Claim C6. After \<^verbatim>\<open>b.Copy(&a)\<close> the two entries agree on \<^verbatim>\<open>GetVertexId()\<close>. Only
  \<^verbatim>\<open>Index\<close> is transferred: the rest of \<open>b\<close> is what it was, and the source \<open>a\<close> is
  unchanged, also when \<open>a\<close> and \<open>b\<close> are the same object. In the store, only the entry at
  \<open>b\<close> is written.
\<close>

theorem Copy_agrees_with_source:
  assumes b: "h b = Some eb" and a: "h a = Some ea"
  shows "Copy_at h b a = Some (h(b \<mapsto> Copy ea eb))
         \<and> GetVertexId (Copy ea eb) = GetVertexId ea
         \<and> vtkHyperTreeGridEntry.more (Copy ea eb) = vtkHyperTreeGridEntry.more eb
         \<and> (h(b \<mapsto> Copy ea eb)) a = Some ea"
proof -
  have call: "Copy_at h b a = Some (h(b \<mapsto> Copy ea eb))"
    by (simp add: Copy_at_def a b)
  have val: "GetVertexId (Copy ea eb) = GetVertexId ea"
    by (simp add: Copy_def GetVertexId_def)
  have rest: "vtkHyperTreeGridEntry.more (Copy ea eb) = vtkHyperTreeGridEntry.more eb"
    by (simp add: Copy_def)
  have src: "(h(b \<mapsto> Copy ea eb)) a = Some ea"
  proof (cases "a = b")
    case True
    with a b have "ea = eb" by simp
    with True show ?thesis by (simp add: Copy_same_entry)
  next
    case False
    with a show ?thesis by simp
  qed
  from call val rest src show ?thesis by simp
qed

text \<open>
  Two entries with indices 5 and 7 at references 0 and 1: copying 0 into 1 leaves both at
  5. Copying the entry at 0 into itself leaves the store as it was.
\<close>

theorem Copy_agrees_with_source_witness:
  "Copy_at [0 \<mapsto> \<lparr>Index = 5 :: 64 word\<rparr>, 1 \<mapsto> \<lparr>Index = 7\<rparr>] 1 0
     = Some [0 \<mapsto> \<lparr>Index = 5 :: 64 word\<rparr>, 1 \<mapsto> \<lparr>Index = 5\<rparr>]
   \<and> GetVertexId (Copy \<lparr>Index = 5 :: 64 word\<rparr> \<lparr>Index = 7 :: 64 word\<rparr>) = 5
   \<and> Copy_at [0 \<mapsto> \<lparr>Index = 5 :: 64 word\<rparr>] 0 0 = Some [0 \<mapsto> \<lparr>Index = 5 :: 64 word\<rparr>]"
  using Copy_agrees_with_source [of "[0 \<mapsto> \<lparr>Index = 5 :: 64 word\<rparr>, 1 \<mapsto> \<lparr>Index = 7\<rparr>]" 1
      "\<lparr>Index = 7\<rparr>" 0 "\<lparr>Index = 5\<rparr>"]
    Copy_agrees_with_source [of "[0 \<mapsto> \<lparr>Index = 5 :: 64 word\<rparr>]" 0 "\<lparr>Index = 5\<rparr>" 0 "\<lparr>Index = 5\<rparr>"]
  by (simp add: GetVertexId_def Copy_def)

section \<open>Properties of the members defined outside the header\<close>

subsection \<open>Indices and cells\<close>



lemma IsLeafAt_not_IsCoarseAt: "IsLeafAt tree index \<Longrightarrow> \<not> IsCoarseAt tree index"
  by (simp add: IsLeafAt_def IsCoarseAt_def)

lemma IsCoarseAt_iff: "IsCoarseAt tree index \<longleftrightarrow> (\<exists>elder. CellAt tree index = Some (Coarse elder))"
  by (auto simp: IsCoarseAt_def split: option.splits cell.splits)

lemma ChildIsLeaf_iff:
  "ChildIsLeaf tree index ichild \<longleftrightarrow>
     (\<exists>child. ChildLocalIndex tree index ichild = Some child \<and> IsLeafAt tree child)"
  by (cases "ChildLocalIndex tree index ichild") (simp_all add: ChildIsLeaf_def)







lemma GetTree_cases:
  "GetTree treeIndex create grid =
     (if InRange grid treeIndex \<and> HyperTrees grid treeIndex \<noteq> None
        then (HyperTrees grid treeIndex, grid)
      else if InRange grid treeIndex \<and> create
        then (Some (NewTree (BranchFactor grid)),
              grid\<lparr>HyperTrees := (HyperTrees grid)(treeIndex \<mapsto> NewTree (BranchFactor grid))\<rparr>)
      else (None, grid))"
  by (cases "HyperTrees grid treeIndex") (simp_all add: GetTree_def)




text \<open>
  A quad tree whose root has been given the global index 10 and then subdivided: the root
  and its four children have the global indices 10 to 14, each different from the others.
\<close>

lemma quad_root_subdivided_global_indices:
  "map (\<lambda>i. GetGlobalNodeIndex
               (SubdivideLeaf (SetGlobalIndexStart (NewTree 4) 10 \<lparr>Index = 0 :: 64 word\<rparr>) 0
                  \<lparr>Index = 0 :: 64 word\<rparr>)
               \<lparr>Index = i\<rparr>)
     [0, 1, 2, 3, 4]
   = [Some 10, Some 11, Some 12, Some 13, Some 14]"
  by (simp add: GetGlobalNodeIndex_def GetGlobalIndex_def SubdivideLeaf_def Subdivide_def
      RegisterGlobalIndices_def SetGlobalIndexStart_def SetGlobalIndex_def NewTree_def
      IsLeaf_def IsLeafAt_def CellAt_def upt_rec)




subsection \<open>Initialisation at a tree of the grid\<close>

text \<open>
  Claim C1. For every grid, tree index and create flag, \<^verbatim>\<open>Initialize(grid, treeIndex,
  create)\<close> resets the index of the entry to 0, so that \<^verbatim>\<open>IsRoot()\<close> holds and
  \<^verbatim>\<open>GetVertexId()\<close> is 0 right after it, and changes nothing else in the entry. The
  handle it returns is absent exactly when the tree index is outside the valid range of
  the grid, or the tree there is unallocated and \<^verbatim>\<open>create\<close> is false. A handle that is
  present is the tree the grid holds at that index after the call; a tree that was
  already there is returned as it is and the grid is unchanged.
\<close>

theorem Initialize_resets_and_resolves:
  "(case Initialize grid treeIndex create this of
      (tree, grid', this') \<Rightarrow>
        Index this' = 0 \<and> IsRoot this' \<and> GetVertexId this' = 0
        \<and> vtkHyperTreeGridEntry.more this' = vtkHyperTreeGridEntry.more this
        \<and> (tree = None) =
            (\<not> InRange grid treeIndex \<or> (HyperTrees grid treeIndex = None \<and> \<not> create))
        \<and> (tree \<noteq> None \<longrightarrow> HyperTrees grid' treeIndex = tree)
        \<and> (HyperTrees grid treeIndex \<noteq> None \<and> InRange grid treeIndex
             \<longrightarrow> tree = HyperTrees grid treeIndex \<and> grid' = grid))"
proof -
  obtain tree grid' where get: "GetTree treeIndex create grid = (tree, grid')"
    by (cases "GetTree treeIndex create grid")
  have init: "Initialize grid treeIndex create this = (tree, grid', this\<lparr>Index := 0\<rparr>)"
    by (simp add: Initialize_def get)
  have absent: "(tree = None) =
      (\<not> InRange grid treeIndex \<or> (HyperTrees grid treeIndex = None \<and> \<not> create))"
    using get unfolding GetTree_cases by (auto split: if_splits)
  have resolved: "tree \<noteq> None \<longrightarrow> HyperTrees grid' treeIndex = tree"
    using get unfolding GetTree_cases by (auto split: if_splits)
  have present: "HyperTrees grid treeIndex \<noteq> None \<and> InRange grid treeIndex
      \<longrightarrow> tree = HyperTrees grid treeIndex \<and> grid' = grid"
    using get unfolding GetTree_cases by (auto split: if_splits)
  have reset: "Index (this\<lparr>Index := 0\<rparr>) = 0 \<and> IsRoot (this\<lparr>Index := 0\<rparr>)
      \<and> GetVertexId (this\<lparr>Index := 0\<rparr>) = 0
      \<and> vtkHyperTreeGridEntry.more (this\<lparr>Index := 0\<rparr>) = vtkHyperTreeGridEntry.more this"
    by (simp add: IsRoot_def GetVertexId_def)
  from reset absent resolved present show ?thesis
    unfolding init prod.case by (intro conjI) (elim conjE, assumption)+
qed

text \<open>
  A grid with room for three trees and none allocated: creating tree 2 returns a fresh
  tree and stores it; asking for it again returns it; without \<^verbatim>\<open>create\<close>, or at
  index 3, the handle is absent. The entry, at index 7 before, is at 0 afterwards.
\<close>

theorem Initialize_resets_and_resolves_witness:
  "Initialize \<lparr>MaxNumberOfTrees = 3, BranchFactor = 4, HyperTrees = Map.empty\<rparr> 2 True
       \<lparr>Index = 7 :: 64 word\<rparr>
     = (Some (NewTree 4),
        \<lparr>MaxNumberOfTrees = 3, BranchFactor = 4, HyperTrees = [2 \<mapsto> NewTree 4]\<rparr>,
        \<lparr>Index = 0\<rparr>)
   \<and> Initialize \<lparr>MaxNumberOfTrees = 3, BranchFactor = 4, HyperTrees = [2 \<mapsto> NewTree 4]\<rparr> 2 False
       \<lparr>Index = 7 :: 64 word\<rparr>
     = (Some (NewTree 4),
        \<lparr>MaxNumberOfTrees = 3, BranchFactor = 4, HyperTrees = [2 \<mapsto> NewTree 4]\<rparr>,
        \<lparr>Index = 0\<rparr>)
   \<and> fst (Initialize \<lparr>MaxNumberOfTrees = 3, BranchFactor = 4, HyperTrees = Map.empty\<rparr> 2 False
       \<lparr>Index = 7 :: 64 word\<rparr>) = None
   \<and> fst (Initialize \<lparr>MaxNumberOfTrees = 3, BranchFactor = 4, HyperTrees = Map.empty\<rparr> 3 True
       \<lparr>Index = 7 :: 64 word\<rparr>) = None"
  using
    Initialize_resets_and_resolves [where grid = "\<lparr>MaxNumberOfTrees = 3, BranchFactor = 4, HyperTrees = Map.empty\<rparr>"
      and treeIndex = "2 :: 64 word" and create = True and this = "\<lparr>Index = 7 :: 64 word\<rparr>"]
    Initialize_resets_and_resolves [where grid = "\<lparr>MaxNumberOfTrees = 3, BranchFactor = 4, HyperTrees = [2 \<mapsto> NewTree 4]\<rparr>"
      and treeIndex = "2 :: 64 word" and create = False and this = "\<lparr>Index = 7 :: 64 word\<rparr>"]
  by (simp add: Initialize_def GetTree_def InRange_def)

subsection \<open>Descending to a child\<close>

text \<open>
  Claim C2. When the current cell of the entry is coarse and \<open>ichild\<close> is below the
  branching factor of the tree, \<^verbatim>\<open>ToChild(tree, ichild)\<close> succeeds and the entry after
  it is the entry before it with \<^verbatim>\<open>Index\<close> set to the local index the tree gives for
  that child; nothing else in the entry changes.
\<close>

theorem ToChild_moves_to_child:
  assumes coarse: "IsCoarseAt tree (Index this)"
    and valid_child: "unat ichild < BranchingFactor tree"
  shows "\<exists>child. ChildLocalIndex tree (Index this) (unat ichild) = Some child
           \<and> ToChild tree ichild this = Inr (this\<lparr>Index := child\<rparr>)"
proof -
  from coarse obtain elder where cell: "CellAt tree (Index this) = Some (Coarse elder)"
    by (auto simp: IsCoarseAt_iff)
  then have not_leaf: "\<not> IsLeaf tree this"
    by (simp add: IsLeaf_def IsLeafAt_def)
  from cell have child: "ChildLocalIndex tree (Index this) (unat ichild) = Some (elder + word_of_nat (unat ichild))"
    by (simp add: ChildLocalIndex_def)
  from not_leaf valid_child child show ?thesis
    by (simp add: ToChild_def)
qed

text \<open>
  A root subdivided once into four children at local indices 1 to 4: from the root,
  child 2 is the cell at index 3.
\<close>

theorem ToChild_moves_to_child_witness:
  "IsCoarseAt \<lparr>BranchingFactor = 4, Cells = [Coarse 1, Leaf, Leaf, Leaf, Leaf],
                GlobalIndexTable = Map.empty\<rparr> (Index \<lparr>Index = 0 :: 64 word\<rparr>)
   \<and> unat (2 :: 8 word) < 4
   \<and> ToChild \<lparr>BranchingFactor = 4, Cells = [Coarse 1, Leaf, Leaf, Leaf, Leaf],
               GlobalIndexTable = Map.empty\<rparr> 2 \<lparr>Index = 0 :: 64 word\<rparr>
       = Inr \<lparr>Index = 3\<rparr>"
proof -
  let ?tree = "\<lparr>BranchingFactor = 4, Cells = [Coarse 1, Leaf, Leaf, Leaf, Leaf :: 64 word cell],
                GlobalIndexTable = Map.empty\<rparr>"
  let ?e = "\<lparr>Index = 0 :: 64 word\<rparr>"
  have coarse: "IsCoarseAt ?tree (Index ?e)"
    by (simp add: IsCoarseAt_def CellAt_def)
  have valid_child: "unat (2 :: 8 word) < BranchingFactor ?tree"
    by simp
  from ToChild_moves_to_child [OF coarse valid_child]
  have "ToChild ?tree 2 ?e = Inr \<lparr>Index = 3\<rparr>"
    by (simp add: ChildLocalIndex_def CellAt_def)
  with coarse show ?thesis by simp
qed

subsection \<open>Terminal nodes\<close>

text \<open>
  Claim C4. \<^verbatim>\<open>IsTerminalNode(tree)\<close> is true exactly when the current cell is coarse
  and each of its children, one per child number below the branching factor, is a leaf.
  In particular it is false on a leaf, and false on a coarse cell that has a child which
  is not a leaf.
\<close>

theorem IsTerminalNode_iff_coarse_with_leaf_children:
  "IsTerminalNode tree this =
     (IsCoarseAt tree (Index this)
      \<and> (\<forall>ichild<BranchingFactor tree.
            \<exists>child. ChildLocalIndex tree (Index this) ichild = Some child \<and> IsLeafAt tree child))
   \<and> (IsLeaf tree this \<longrightarrow> \<not> IsTerminalNode tree this)
   \<and> (IsCoarseAt tree (Index this)
        \<and> (\<exists>ichild<BranchingFactor tree.
              \<exists>child. ChildLocalIndex tree (Index this) ichild = Some child \<and> \<not> IsLeafAt tree child)
       \<longrightarrow> \<not> IsTerminalNode tree this)"
proof -
  have children: "list_all (ChildIsLeaf tree (Index this)) [0..<BranchingFactor tree] =
      (\<forall>ichild<BranchingFactor tree.
          \<exists>child. ChildLocalIndex tree (Index this) ichild = Some child \<and> IsLeafAt tree child)"
    by (simp add: list_all_iff ChildIsLeaf_iff Ball_def)
  have main: "IsTerminalNode tree this =
     (IsCoarseAt tree (Index this)
      \<and> (\<forall>ichild<BranchingFactor tree.
            \<exists>child. ChildLocalIndex tree (Index this) ichild = Some child \<and> IsLeafAt tree child))"
    unfolding IsTerminalNode_def children [symmetric]
    by (auto simp: IsLeaf_def dest: IsLeafAt_not_IsCoarseAt)
  have leaf: "IsLeaf tree this \<longrightarrow> \<not> IsTerminalNode tree this"
    by (simp add: IsTerminalNode_def)
  have other: "IsCoarseAt tree (Index this)
        \<and> (\<exists>ichild<BranchingFactor tree.
              \<exists>child. ChildLocalIndex tree (Index this) ichild = Some child \<and> \<not> IsLeafAt tree child)
       \<longrightarrow> \<not> IsTerminalNode tree this"
    unfolding main by auto
  from main leaf other show ?thesis by blast
qed

text \<open>
  A root subdivided once is terminal and its first child, a leaf, is not; once the second
  child has been subdivided as well, the root is no longer terminal.
\<close>

theorem IsTerminalNode_iff_coarse_with_leaf_children_witness:
  "IsTerminalNode \<lparr>BranchingFactor = 4, Cells = [Coarse 1, Leaf, Leaf, Leaf, Leaf],
                    GlobalIndexTable = Map.empty\<rparr> \<lparr>Index = 0 :: 64 word\<rparr>
   \<and> \<not> IsTerminalNode \<lparr>BranchingFactor = 4, Cells = [Coarse 1, Leaf, Leaf, Leaf, Leaf],
                    GlobalIndexTable = Map.empty\<rparr> \<lparr>Index = 1 :: 64 word\<rparr>
   \<and> \<not> IsTerminalNode \<lparr>BranchingFactor = 4,
                    Cells = [Coarse 1, Leaf, Coarse 5, Leaf, Leaf, Leaf, Leaf, Leaf, Leaf],
                    GlobalIndexTable = Map.empty\<rparr> \<lparr>Index = 0 :: 64 word\<rparr>"
proof -
  let ?once = "\<lparr>BranchingFactor = 4, Cells = [Coarse 1, Leaf, Leaf, Leaf, Leaf :: 64 word cell],
                GlobalIndexTable = Map.empty\<rparr>"
  let ?twice = "\<lparr>BranchingFactor = 4,
                 Cells = [Coarse 1, Leaf, Coarse 5, Leaf, Leaf, Leaf, Leaf, Leaf, Leaf :: 64 word cell],
                 GlobalIndexTable = Map.empty\<rparr>"
  let ?root = "\<lparr>Index = 0 :: 64 word\<rparr>"
  let ?first = "\<lparr>Index = 1 :: 64 word\<rparr>"
  have coarse: "IsCoarseAt ?once (Index ?root)"
    by (simp add: IsCoarseAt_def CellAt_def)
  have leaves: "\<forall>ichild<BranchingFactor ?once.
      \<exists>child. ChildLocalIndex ?once (Index ?root) ichild = Some child \<and> IsLeafAt ?once child"
  proof (intro allI impI)
    fix ichild :: nat
    assume "ichild < BranchingFactor ?once"
    then have "ichild = 0 \<or> ichild = 1 \<or> ichild = 2 \<or> ichild = 3"
      by auto
    then show "\<exists>child. ChildLocalIndex ?once (Index ?root) ichild = Some child \<and> IsLeafAt ?once child"
      by (auto simp: ChildLocalIndex_def IsLeafAt_def CellAt_def)
  qed
  from coarse leaves have terminal: "IsTerminalNode ?once ?root"
    using IsTerminalNode_iff_coarse_with_leaf_children [of ?once ?root] by blast
  have leaf: "IsLeaf ?once ?first"
    by (simp add: IsLeaf_def IsLeafAt_def CellAt_def)
  then have not_terminal_leaf: "\<not> IsTerminalNode ?once ?first"
    using IsTerminalNode_iff_coarse_with_leaf_children [of ?once ?first] by blast
  have coarse2: "IsCoarseAt ?twice (Index ?root)"
    by (simp add: IsCoarseAt_def CellAt_def)
  have "ChildLocalIndex ?twice (Index ?root) 1 = Some 2 \<and> \<not> IsLeafAt ?twice 2"
    by (simp add: ChildLocalIndex_def IsLeafAt_def CellAt_def)
  then have "\<exists>ichild<BranchingFactor ?twice.
      \<exists>child. ChildLocalIndex ?twice (Index ?root) ichild = Some child \<and> \<not> IsLeafAt ?twice child"
    by (intro exI [of _ 1] exI [of _ 2]) simp
  with coarse2 have not_terminal: "\<not> IsTerminalNode ?twice ?root"
    using IsTerminalNode_iff_coarse_with_leaf_children [of ?twice ?root] by blast
  from terminal not_terminal_leaf not_terminal show ?thesis by simp
qed

subsection \<open>Subdividing a leaf\<close>




end
